theory Spec2Isabelle
  imports Complex_Main "HOL-Library.Word"
begin

unbundle bit_operations_syntax

section \<open>Data model\<close>

text \<open>
  The two sender scripts, \<^verbatim>\<open>examples/attitude_sender_example.py\<close> and
  \<^verbatim>\<open>examples/body_velocity_sender_example.py\<close>, keep their control variables in module
  globals, mutate them from small handler functions and write packets to a UDP socket.
  Here the globals are the fields of a record that every handler takes and returns, and
  the socket is the field \<open>sent\<close>: the list of packets packed and handed to
  \<^verbatim>\<open>sock.sendto\<close> so far, oldest first.

  Python numbers (the \<^verbatim>\<open>int\<close> literals \<^verbatim>\<open>0\<close> and the \<^verbatim>\<open>float\<close> literals
  \<^verbatim>\<open>0.5\<close>, \<^verbatim>\<open>2.0\<close>, \<^verbatim>\<open>5.0\<close>, \<^verbatim>\<open>0.02\<close>, \<^verbatim>\<open>1.0\<close>) are exact rationals here: the
  rounding of binary64 arithmetic is not modelled. The steps \<^verbatim>\<open>2.0\<close>, \<^verbatim>\<open>5.0\<close> and \<^verbatim>\<open>1.0\<close>
  and their small multiples are exact in binary64. The thrust step \<^verbatim>\<open>0.02\<close> is not: a
  thrust such as \<open>13/25\<close> below stands for the binary64 number that the program
  computes for \<^verbatim>\<open>0.5 + 0.02\<close>, and no statement rests on its last bits.
\<close>

text \<open>
  Modelled from the spec: the enumeration \<^verbatim>\<open>SetpointMode\<close> is declared in
  \<^verbatim>\<open>control_packet.py\<close>, which is not among the sources. The two members are the ones
  the senders use and the specification names.
\<close>

datatype SetpointMode = ATTITUDE_CONTROL | VELOCITY_BODY

text \<open>
  Modelled from the spec: the class \<^verbatim>\<open>ControlPacket\<close> is declared in
  \<^verbatim>\<open>control_packet.py\<close> as well. Its fields are the keyword arguments of the two
  constructor calls in \<^verbatim>\<open>send_attitude\<close> and \<^verbatim>\<open>send_velocity_body\<close>, which are the
  fields of the specification's Command Packet. The numeric type is a parameter: the
  senders fill the fields with Python numbers, the wire format with fixed-width values.
\<close>

record 'n ControlPacket =
  mode :: SetpointMode
  enable_flag :: bool
  yaw_control_flag :: bool
  position :: "'n \<times> 'n \<times> 'n"
  velocity :: "'n \<times> 'n \<times> 'n"
  acceleration :: "'n \<times> 'n \<times> 'n"
  attitude :: "'n \<times> 'n \<times> 'n \<times> 'n"
  attitude_rate :: "'n \<times> 'n \<times> 'n"

text \<open>
  The part of the module state that both scripts declare with the same names:
  \<^verbatim>\<open>enabled\<close>, \<^verbatim>\<open>INCREMENTAL_MODE\<close>, the local \<^verbatim>\<open>running\<close> of \<^verbatim>\<open>main\<close>, and the socket.
\<close>

record sender =
  enabled :: bool
  INCREMENTAL_MODE :: bool
  running :: bool
  sent :: "rat ControlPacket list"

record attitude_sender = sender +
  roll :: rat
  pitch :: rat
  yaw :: rat
  thrust :: rat

record velocity_sender = sender +
  velocity_x :: rat
  velocity_y :: rat
  velocity_z :: rat
  yaw_rate :: rat

datatype key =
  K_q | K_e | K_c | K_m | K_h
  | K_w | K_s | K_a | K_d
  | K_UP | K_DOWN | K_LEFT | K_RIGHT
  | K_other

text \<open>
  The pygame events that \<^verbatim>\<open>main\<close> distinguishes. \<open>MOUSEBUTTONDOWN\<close> carries the
  position that \<^verbatim>\<open>pygame.mouse.get_pos()\<close> returns while the event is handled.
\<close>

datatype event =
  QUIT
  | KEYDOWN key
  | KEYUP key
  | MOUSEBUTTONDOWN "int \<times> int"
  | MOUSEBUTTONUP
  | OTHER_EVENT

section \<open>Buttons and guards (identical in both scripts)\<close>

text \<open>
  \<^verbatim>\<open>class Button\<close>. The fields \<^verbatim>\<open>color\<close> and \<^verbatim>\<open>active\<close> only choose the colour that
  \<^verbatim>\<open>draw\<close> paints; they are read by no handler and are left out.
\<close>

record 's Button =
  text_label :: string
  button_position :: "int \<times> int"
  button_size :: "int \<times> int"
  action :: "'s \<Rightarrow> 's"
  release_action :: "('s \<Rightarrow> 's) option"

definition Button :: "string \<Rightarrow> int \<times> int \<Rightarrow> int \<times> int \<Rightarrow> ('s \<Rightarrow> 's) \<Rightarrow> ('s \<Rightarrow> 's) option \<Rightarrow> 's Button" where
  "Button t p sz a r =
     \<lparr>text_label = t, button_position = p, button_size = sz, action = a, release_action = r\<rparr>"

definition click :: "'s Button \<Rightarrow> 's \<Rightarrow> 's" where
  "click b s = action b s"

definition release :: "'s Button \<Rightarrow> 's \<Rightarrow> 's" where
  "release b s = (case release_action b of None \<Rightarrow> s | Some f \<Rightarrow> f s)"

definition is_clicked :: "'s Button \<Rightarrow> int \<times> int \<Rightarrow> bool" where
  "is_clicked b mouse_pos =
     (case mouse_pos of (x, y) \<Rightarrow>
        (fst (button_position b) \<le> x \<and> x \<le> fst (button_position b) + fst (button_size b))
        \<and> (snd (button_position b) \<le> y \<and> y \<le> snd (button_position b) + snd (button_size b)))"

definition enable_control :: "'a sender_scheme \<Rightarrow> 'a sender_scheme" where
  "enable_control s = s\<lparr>enabled := True\<rparr>"

definition toggle_mode :: "'a sender_scheme \<Rightarrow> 'a sender_scheme" where
  "toggle_mode s = s\<lparr>INCREMENTAL_MODE := \<not> INCREMENTAL_MODE s\<rparr>"

definition check_enabled :: "('a sender_scheme \<Rightarrow> 'a sender_scheme) \<Rightarrow> 'a sender_scheme \<Rightarrow> 'a sender_scheme" where
  "check_enabled act s = (if enabled s then act s else s)"

definition check_and_reset :: "('a sender_scheme \<Rightarrow> 'a sender_scheme) \<Rightarrow> 'a sender_scheme \<Rightarrow> 'a sender_scheme" where
  "check_and_reset act s = (if \<not> INCREMENTAL_MODE s then act s else s)"

text \<open>The two loops of \<^verbatim>\<open>main\<close> over \<^verbatim>\<open>buttons\<close>, in list order.\<close>

definition click_buttons :: "'s Button list \<Rightarrow> int \<times> int \<Rightarrow> 's \<Rightarrow> 's" where
  "click_buttons bs mouse_pos s = foldl (\<lambda>st b. if is_clicked b mouse_pos then click b st else st) s bs"

definition release_buttons :: "'s Button list \<Rightarrow> 's \<Rightarrow> 's" where
  "release_buttons bs s = foldl (\<lambda>st b. release b st) s bs"

section \<open>Attitude sender\<close>

definition ROLL_PITCH_STEP :: rat where "ROLL_PITCH_STEP = 2"
definition YAW_RATE_STEP :: rat where "YAW_RATE_STEP = 5"
definition THRUST_STEP :: rat where "THRUST_STEP = 2 / 100"

definition send_attitude :: "rat \<Rightarrow> rat \<Rightarrow> rat \<Rightarrow> rat \<Rightarrow> attitude_sender \<Rightarrow> attitude_sender" where
  "send_attitude r p y t s =
     s\<lparr>sent := sent s @
        [\<lparr>mode = ATTITUDE_CONTROL, enable_flag = True, yaw_control_flag = True,
          position = (0, 0, 0), velocity = (0, 0, 0), acceleration = (0, 0, 0),
          attitude = (r, p, y, t), attitude_rate = (0, 0, 0)\<rparr>]\<rparr>"

text \<open>The module-level initial values, and \<^verbatim>\<open>running = True\<close> at the start of \<^verbatim>\<open>main\<close>.\<close>

definition attitude_init :: attitude_sender where
  "attitude_init =
     \<lparr>enabled = False, INCREMENTAL_MODE = False, running = True, sent = [],
      roll = 0, pitch = 0, yaw = 0, thrust = 1 / 2\<rparr>"

definition disable_control_att :: "attitude_sender \<Rightarrow> attitude_sender" where
  "disable_control_att s = send_attitude 0 0 0 0 (s\<lparr>enabled := False\<rparr>)"

definition reset_control_att :: "attitude_sender \<Rightarrow> attitude_sender" where
  "reset_control_att s = s\<lparr>roll := 0, pitch := 0, yaw := 0, thrust := 1 / 2\<rparr>"

text \<open>
  The whole conditional expression is the right-hand side of a Python augmented
  assignment: \<^verbatim>\<open>pitch -= A if c else B\<close> is \<^verbatim>\<open>pitch -= (A if c else B)\<close>.
\<close>

definition adjust_pitch_up :: "attitude_sender \<Rightarrow> attitude_sender" where
  "adjust_pitch_up s =
     s\<lparr>pitch := pitch s - (if INCREMENTAL_MODE s then ROLL_PITCH_STEP else - ROLL_PITCH_STEP)\<rparr>"

definition adjust_pitch_down :: "attitude_sender \<Rightarrow> attitude_sender" where
  "adjust_pitch_down s =
     s\<lparr>pitch := pitch s - (if INCREMENTAL_MODE s then ROLL_PITCH_STEP else ROLL_PITCH_STEP)\<rparr>"

definition adjust_roll_left :: "attitude_sender \<Rightarrow> attitude_sender" where
  "adjust_roll_left s =
     s\<lparr>roll := roll s - (if INCREMENTAL_MODE s then ROLL_PITCH_STEP else - ROLL_PITCH_STEP)\<rparr>"

definition adjust_roll_right :: "attitude_sender \<Rightarrow> attitude_sender" where
  "adjust_roll_right s =
     s\<lparr>roll := roll s + (if INCREMENTAL_MODE s then ROLL_PITCH_STEP else ROLL_PITCH_STEP)\<rparr>"

definition increase_thrust :: "attitude_sender \<Rightarrow> attitude_sender" where
  "increase_thrust s = s\<lparr>thrust := min (thrust s + THRUST_STEP) 1\<rparr>"

definition decrease_thrust :: "attitude_sender \<Rightarrow> attitude_sender" where
  "decrease_thrust s = s\<lparr>thrust := max (thrust s - THRUST_STEP) 0\<rparr>"

definition yaw_left_att :: "attitude_sender \<Rightarrow> attitude_sender" where
  "yaw_left_att s =
     s\<lparr>yaw := yaw s - (if \<not> INCREMENTAL_MODE s then YAW_RATE_STEP else (yaw s - YAW_RATE_STEP))\<rparr>"

definition yaw_right_att :: "attitude_sender \<Rightarrow> attitude_sender" where
  "yaw_right_att s =
     s\<lparr>yaw := yaw s + (if \<not> INCREMENTAL_MODE s then YAW_RATE_STEP else (yaw s + YAW_RATE_STEP))\<rparr>"

definition reset_roll :: "attitude_sender \<Rightarrow> attitude_sender" where
  "reset_roll s = s\<lparr>roll := 0\<rparr>"

definition reset_pitch :: "attitude_sender \<Rightarrow> attitude_sender" where
  "reset_pitch s = s\<lparr>pitch := 0\<rparr>"

text \<open>The body of \<^verbatim>\<open>reset_thrust\<close> is \<^verbatim>\<open>pass\<close>; the assignment is commented out.\<close>

definition reset_thrust :: "attitude_sender \<Rightarrow> attitude_sender" where
  "reset_thrust s = s"

definition reset_yaw :: "attitude_sender \<Rightarrow> attitude_sender" where
  "reset_yaw s = s\<lparr>yaw := 0\<rparr>"

definition buttons_att :: "attitude_sender Button list" where
  "buttons_att =
     [Button ''Enable'' (50, 150) (100, 50) enable_control None,
      Button ''Disable'' (50, 220) (100, 50) disable_control_att None,
      Button ''Hold'' (50, 290) (100, 50) reset_control_att None,
      Button ''Mode'' (50, 360) (100, 50) toggle_mode None,
      Button ''Pitch Up'' (600, 290) (100, 50) (check_enabled adjust_pitch_up) (Some (check_and_reset reset_pitch)),
      Button ''Pitch Down'' (600, 150) (100, 50) (check_enabled adjust_pitch_down) (Some (check_and_reset reset_pitch)),
      Button ''Roll Left'' (500, 220) (100, 50) (check_enabled adjust_roll_left) (Some (check_and_reset reset_roll)),
      Button ''Roll Right'' (700, 220) (100, 50) (check_enabled adjust_roll_right) (Some (check_and_reset reset_roll)),
      Button ''Increase Thrust'' (275, 150) (150, 50) (check_enabled increase_thrust) (Some (check_and_reset reset_thrust)),
      Button ''Decrease Thrust'' (275, 290) (150, 50) (check_enabled decrease_thrust) (Some (check_and_reset reset_thrust)),
      Button ''Yaw Left'' (200, 220) (100, 50) (check_enabled yaw_left_att) (Some (check_and_reset reset_yaw)),
      Button ''Yaw Right'' (375, 220) (100, 50) (check_enabled yaw_right_att) (Some (check_and_reset reset_yaw))]"

text \<open>
  The first \<^verbatim>\<open>if\<close>/\<^verbatim>\<open>elif\<close> chain of the \<^verbatim>\<open>KEYDOWN\<close> branch of \<^verbatim>\<open>main\<close>, and the second
  one, which is entered only \<^verbatim>\<open>if enabled\<close> holds after the first chain has run.
\<close>

definition keydown_control_att :: "key \<Rightarrow> attitude_sender \<Rightarrow> attitude_sender" where
  "keydown_control_att k s =
     (if k = K_q then (send_attitude 0 0 0 0 s)\<lparr>running := False\<rparr>
      else if k = K_e then enable_control s
      else if k = K_c then disable_control_att s
      else if k = K_m then toggle_mode s
      else if k = K_h then reset_control_att s
      else s)"

definition keydown_axis_att :: "key \<Rightarrow> attitude_sender \<Rightarrow> attitude_sender" where
  "keydown_axis_att k s =
     (if k = K_w then adjust_pitch_up s
      else if k = K_s then adjust_pitch_down s
      else if k = K_a then adjust_roll_left s
      else if k = K_d then adjust_roll_right s
      else if k = K_UP then increase_thrust s
      else if k = K_DOWN then decrease_thrust s
      else if k = K_LEFT then yaw_left_att s
      else if k = K_RIGHT then yaw_right_att s
      else s)"

definition keyup_att :: "key \<Rightarrow> attitude_sender \<Rightarrow> attitude_sender" where
  "keyup_att k s =
     (if \<not> INCREMENTAL_MODE s then
        (if k = K_w \<or> k = K_s then reset_pitch s
         else if k = K_a \<or> k = K_d then reset_roll s
         else if k = K_UP \<or> k = K_DOWN then reset_thrust s
         else if k = K_LEFT \<or> k = K_RIGHT then reset_yaw s
         else s)
      else s)"

text \<open>One pass of the body of \<^verbatim>\<open>for event in pygame.event.get()\<close>.\<close>

fun handle_event_att :: "attitude_sender \<Rightarrow> event \<Rightarrow> attitude_sender" where
  "handle_event_att s QUIT = s\<lparr>running := False\<rparr>"
| "handle_event_att s (KEYDOWN k) =
     (let s1 = keydown_control_att k s
      in if enabled s1 then keydown_axis_att k s1 else s1)"
| "handle_event_att s (KEYUP k) = keyup_att k s"
| "handle_event_att s (MOUSEBUTTONDOWN mouse_pos) = click_buttons buttons_att mouse_pos s"
| "handle_event_att s MOUSEBUTTONUP = release_buttons buttons_att s"
| "handle_event_att s OTHER_EVENT = s"

text \<open>
  One iteration of \<^verbatim>\<open>while running\<close>: all pending events in order (setting
  \<^verbatim>\<open>running = False\<close> does not leave the \<^verbatim>\<open>for\<close> loop), then the periodic send.
\<close>

definition main_iteration_att :: "attitude_sender \<Rightarrow> event list \<Rightarrow> attitude_sender" where
  "main_iteration_att s evs =
     (let s1 = foldl handle_event_att s evs
      in if enabled s1 then send_attitude (roll s1) (pitch s1) (yaw s1) (thrust s1) s1 else s1)"

text \<open>
  \<^verbatim>\<open>main\<close>, given what \<^verbatim>\<open>pygame.event.get()\<close> returns at each iteration; the run ends
  when \<^verbatim>\<open>running\<close> is false or the given iterations are used up.
\<close>

fun main_att :: "attitude_sender \<Rightarrow> event list list \<Rightarrow> attitude_sender" where
  "main_att s [] = s"
| "main_att s (evs # rest) = (if running s then main_att (main_iteration_att s evs) rest else s)"

section \<open>Body-velocity sender\<close>

text \<open>\<^verbatim>\<open>YAW_RATE_STEP\<close> is \<^verbatim>\<open>5.0\<close> in this script too; the constant above is reused.\<close>

definition DEFAULT_SPEED :: rat where "DEFAULT_SPEED = 1"

definition send_velocity_body :: "rat \<Rightarrow> rat \<Rightarrow> rat \<Rightarrow> rat \<Rightarrow> velocity_sender \<Rightarrow> velocity_sender" where
  "send_velocity_body vx vy vz yr s =
     s\<lparr>sent := sent s @
        [\<lparr>mode = VELOCITY_BODY, enable_flag = True, yaw_control_flag = True,
          position = (0, 0, 0), velocity = (vx, vy, vz), acceleration = (0, 0, 0),
          attitude = (0, 0, 0, 0), attitude_rate = (0, 0, yr)\<rparr>]\<rparr>"

definition velocity_init :: velocity_sender where
  "velocity_init =
     \<lparr>enabled = False, INCREMENTAL_MODE = False, running = True, sent = [],
      velocity_x = 0, velocity_y = 0, velocity_z = 0, yaw_rate = 0\<rparr>"

definition disable_control_vel :: "velocity_sender \<Rightarrow> velocity_sender" where
  "disable_control_vel s = send_velocity_body 0 0 0 0 (s\<lparr>enabled := False\<rparr>)"

definition reset_control_vel :: "velocity_sender \<Rightarrow> velocity_sender" where
  "reset_control_vel s = s\<lparr>velocity_x := 0, velocity_y := 0, velocity_z := 0, yaw_rate := 0\<rparr>"

text \<open>
  Here the statements are plain assignments:
  \<^verbatim>\<open>velocity_x = velocity_x + DEFAULT_SPEED if INCREMENTAL_MODE else DEFAULT_SPEED\<close>.
\<close>

definition move_forward :: "velocity_sender \<Rightarrow> velocity_sender" where
  "move_forward s =
     s\<lparr>velocity_x := (if INCREMENTAL_MODE s then velocity_x s + DEFAULT_SPEED else DEFAULT_SPEED)\<rparr>"

definition move_backward :: "velocity_sender \<Rightarrow> velocity_sender" where
  "move_backward s =
     s\<lparr>velocity_x := (if INCREMENTAL_MODE s then velocity_x s - DEFAULT_SPEED else - DEFAULT_SPEED)\<rparr>"

definition move_left :: "velocity_sender \<Rightarrow> velocity_sender" where
  "move_left s =
     s\<lparr>velocity_y := (if INCREMENTAL_MODE s then velocity_y s - DEFAULT_SPEED else - DEFAULT_SPEED)\<rparr>"

definition move_right :: "velocity_sender \<Rightarrow> velocity_sender" where
  "move_right s =
     s\<lparr>velocity_y := (if INCREMENTAL_MODE s then velocity_y s + DEFAULT_SPEED else DEFAULT_SPEED)\<rparr>"

definition ascend :: "velocity_sender \<Rightarrow> velocity_sender" where
  "ascend s =
     s\<lparr>velocity_z := (if INCREMENTAL_MODE s then velocity_z s - DEFAULT_SPEED else - DEFAULT_SPEED)\<rparr>"

definition descend :: "velocity_sender \<Rightarrow> velocity_sender" where
  "descend s =
     s\<lparr>velocity_z := (if INCREMENTAL_MODE s then velocity_z s + DEFAULT_SPEED else DEFAULT_SPEED)\<rparr>"

definition yaw_left_vel :: "velocity_sender \<Rightarrow> velocity_sender" where
  "yaw_left_vel s =
     s\<lparr>yaw_rate := (if \<not> INCREMENTAL_MODE s then - YAW_RATE_STEP else (yaw_rate s - YAW_RATE_STEP))\<rparr>"

definition yaw_right_vel :: "velocity_sender \<Rightarrow> velocity_sender" where
  "yaw_right_vel s =
     s\<lparr>yaw_rate := (if \<not> INCREMENTAL_MODE s then YAW_RATE_STEP else (yaw_rate s + YAW_RATE_STEP))\<rparr>"

definition reset_velocity_x :: "velocity_sender \<Rightarrow> velocity_sender" where
  "reset_velocity_x s = s\<lparr>velocity_x := 0\<rparr>"

definition reset_velocity_y :: "velocity_sender \<Rightarrow> velocity_sender" where
  "reset_velocity_y s = s\<lparr>velocity_y := 0\<rparr>"

definition reset_velocity_z :: "velocity_sender \<Rightarrow> velocity_sender" where
  "reset_velocity_z s = s\<lparr>velocity_z := 0\<rparr>"

definition reset_yaw_rate :: "velocity_sender \<Rightarrow> velocity_sender" where
  "reset_yaw_rate s = s\<lparr>yaw_rate := 0\<rparr>"

definition buttons_vel :: "velocity_sender Button list" where
  "buttons_vel =
     [Button ''Enable'' (50, 150) (100, 50) enable_control None,
      Button ''Disable'' (50, 220) (100, 50) disable_control_vel None,
      Button ''Hold'' (50, 290) (100, 50) reset_control_vel None,
      Button ''Mode'' (50, 360) (100, 50) toggle_mode None,
      Button ''Forward'' (600, 150) (100, 50) (check_enabled move_forward) (Some (check_and_reset reset_velocity_x)),
      Button ''Backward'' (600, 290) (100, 50) (check_enabled move_backward) (Some (check_and_reset reset_velocity_x)),
      Button ''Left'' (500, 220) (100, 50) (check_enabled move_left) (Some (check_and_reset reset_velocity_y)),
      Button ''Right'' (700, 220) (100, 50) (check_enabled move_right) (Some (check_and_reset reset_velocity_y)),
      Button ''Ascend'' (275, 150) (100, 50) (check_enabled ascend) (Some (check_and_reset reset_velocity_z)),
      Button ''Descend'' (275, 290) (100, 50) (check_enabled descend) (Some (check_and_reset reset_velocity_z)),
      Button ''Yaw Left'' (175, 220) (100, 50) (check_enabled yaw_left_vel) (Some (check_and_reset reset_yaw_rate)),
      Button ''Yaw Right'' (375, 220) (100, 50) (check_enabled yaw_right_vel) (Some (check_and_reset reset_yaw_rate))]"

definition keydown_control_vel :: "key \<Rightarrow> velocity_sender \<Rightarrow> velocity_sender" where
  "keydown_control_vel k s =
     (if k = K_q then (send_velocity_body 0 0 0 0 s)\<lparr>running := False\<rparr>
      else if k = K_e then enable_control s
      else if k = K_c then disable_control_vel s
      else if k = K_m then toggle_mode s
      else if k = K_h then reset_control_vel s
      else s)"

definition keydown_axis_vel :: "key \<Rightarrow> velocity_sender \<Rightarrow> velocity_sender" where
  "keydown_axis_vel k s =
     (if k = K_w then move_forward s
      else if k = K_s then move_backward s
      else if k = K_a then move_left s
      else if k = K_d then move_right s
      else if k = K_UP then ascend s
      else if k = K_DOWN then descend s
      else if k = K_LEFT then yaw_left_vel s
      else if k = K_RIGHT then yaw_right_vel s
      else s)"

definition keyup_vel :: "key \<Rightarrow> velocity_sender \<Rightarrow> velocity_sender" where
  "keyup_vel k s =
     (if \<not> INCREMENTAL_MODE s then
        (if k = K_w \<or> k = K_s then reset_velocity_x s
         else if k = K_a \<or> k = K_d then reset_velocity_y s
         else if k = K_UP \<or> k = K_DOWN then reset_velocity_z s
         else if k = K_LEFT \<or> k = K_RIGHT then reset_yaw_rate s
         else s)
      else s)"

fun handle_event_vel :: "velocity_sender \<Rightarrow> event \<Rightarrow> velocity_sender" where
  "handle_event_vel s QUIT = s\<lparr>running := False\<rparr>"
| "handle_event_vel s (KEYDOWN k) =
     (let s1 = keydown_control_vel k s
      in if enabled s1 then keydown_axis_vel k s1 else s1)"
| "handle_event_vel s (KEYUP k) = keyup_vel k s"
| "handle_event_vel s (MOUSEBUTTONDOWN mouse_pos) = click_buttons buttons_vel mouse_pos s"
| "handle_event_vel s MOUSEBUTTONUP = release_buttons buttons_vel s"
| "handle_event_vel s OTHER_EVENT = s"

definition main_iteration_vel :: "velocity_sender \<Rightarrow> event list \<Rightarrow> velocity_sender" where
  "main_iteration_vel s evs =
     (let s1 = foldl handle_event_vel s evs
      in if enabled s1
         then send_velocity_body (velocity_x s1) (velocity_y s1) (velocity_z s1) (yaw_rate s1) s1
         else s1)"

fun main_vel :: "velocity_sender \<Rightarrow> event list list \<Rightarrow> velocity_sender" where
  "main_vel s [] = s"
| "main_vel s (evs # rest) = (if running s then main_vel (main_iteration_vel s evs) rest else s)"

section \<open>Setpoint packet codec\<close>

text \<open>
  Modelled from the spec: \<^verbatim>\<open>control_packet.py\<close> (the class \<^verbatim>\<open>ControlPacket\<close> with its
  \<^verbatim>\<open>pack\<close> method, which both senders call, and the decoder) is not among the sources.
  The specification fixes this much: \<open>encode\<close> yields a byte buffer of one constant
  length for all modes, every field is present in a fixed byte order and a fixed-width
  numeric representation, and \<open>decode\<close> fails with \<open>MalformedPacket\<close> exactly when the
  buffer length is not that constant or the mode tag is not a known enumeration value.
  It leaves the widths, the byte order and the tag values open; here a numeric field is
  the 32-bit pattern of its wire representation, written least significant byte first,
  the mode tag and the two flags take one byte each, and the tags are 0 and 1.
\<close>

type_synonym byte = "8 word"

type_synonym float32 = "32 word"

datatype codec_error = MalformedPacket

definition PACKET_SIZE :: nat where
  "PACKET_SIZE = 3 + 16 * 4"

definition mode_tag :: "SetpointMode \<Rightarrow> byte" where
  "mode_tag m = (case m of ATTITUDE_CONTROL \<Rightarrow> 0 | VELOCITY_BODY \<Rightarrow> 1)"

definition mode_of_tag :: "byte \<Rightarrow> SetpointMode option" where
  "mode_of_tag t =
     (if t = 0 then Some ATTITUDE_CONTROL else if t = 1 then Some VELOCITY_BODY else None)"

definition encode_bool :: "bool \<Rightarrow> byte" where
  "encode_bool b = (if b then 1 else 0)"

definition decode_bool :: "byte \<Rightarrow> bool" where
  "decode_bool t = (t \<noteq> 0)"

definition encode_num :: "float32 \<Rightarrow> byte list" where
  "encode_num w = [ucast w, ucast (drop_bit 8 w), ucast (drop_bit 16 w), ucast (drop_bit 24 w)]"

definition decode_num :: "byte list \<Rightarrow> float32" where
  "decode_num bs = foldr (\<lambda>b acc. ucast b OR push_bit 8 acc) bs 0"

definition encode3 :: "float32 \<times> float32 \<times> float32 \<Rightarrow> byte list" where
  "encode3 v = (case v of (a, b, c) \<Rightarrow> encode_num a @ encode_num b @ encode_num c)"

definition encode4 :: "float32 \<times> float32 \<times> float32 \<times> float32 \<Rightarrow> byte list" where
  "encode4 v =
     (case v of (a, b, c, d) \<Rightarrow> encode_num a @ encode_num b @ encode_num c @ encode_num d)"

text \<open>
  Modelled from the spec: \<open>encode\<close> stands for \<^verbatim>\<open>ControlPacket.pack\<close> of the missing
  \<^verbatim>\<open>control_packet.py\<close>: all fields, in the order of the data model, in one buffer of
  \<open>PACKET_SIZE\<close> bytes.
\<close>

definition encode :: "float32 ControlPacket \<Rightarrow> byte list" where
  "encode p =
     [mode_tag (mode p), encode_bool (enable_flag p), encode_bool (yaw_control_flag p)]
     @ encode3 (position p) @ encode3 (velocity p) @ encode3 (acceleration p)
     @ encode4 (attitude p) @ encode3 (attitude_rate p)"

definition num_at :: "byte list \<Rightarrow> nat \<Rightarrow> float32" where
  "num_at bs i = decode_num (take 4 (drop (3 + 4 * i) bs))"

text \<open>
  Modelled from the spec: \<open>decode\<close> stands for the decoder of the missing
  \<^verbatim>\<open>control_packet.py\<close>: \<open>MalformedPacket\<close> for a buffer of the wrong length or with an
  unknown mode tag, the packet otherwise; no numeric value is rejected.
\<close>

definition decode :: "byte list \<Rightarrow> codec_error + float32 ControlPacket" where
  "decode bs =
     (if length bs \<noteq> PACKET_SIZE then Inl MalformedPacket
      else case mode_of_tag (bs ! 0) of
        None \<Rightarrow> Inl MalformedPacket
      | Some m \<Rightarrow>
          Inr \<lparr>mode = m, enable_flag = decode_bool (bs ! 1), yaw_control_flag = decode_bool (bs ! 2),
               position = (num_at bs 0, num_at bs 1, num_at bs 2),
               velocity = (num_at bs 3, num_at bs 4, num_at bs 5),
               acceleration = (num_at bs 6, num_at bs 7, num_at bs 8),
               attitude = (num_at bs 9, num_at bs 10, num_at bs 11, num_at bs 12),
               attitude_rate = (num_at bs 13, num_at bs 14, num_at bs 15)\<rparr>)"

section \<open>Predicates used by the properties\<close>

text \<open>
  The fields outside a mode's own subset: an attitude packet uses \<open>attitude\<close> only, a
  body-velocity packet uses \<open>velocity\<close> and the third (yaw-rate) slot of \<open>attitude_rate\<close>.
\<close>

definition mode_pure :: "rat ControlPacket \<Rightarrow> bool" where
  "mode_pure p =
     (case mode p of
        ATTITUDE_CONTROL \<Rightarrow>
          position p = (0, 0, 0) \<and> velocity p = (0, 0, 0) \<and> acceleration p = (0, 0, 0)
          \<and> attitude_rate p = (0, 0, 0)
      | VELOCITY_BODY \<Rightarrow>
          position p = (0, 0, 0) \<and> acceleration p = (0, 0, 0) \<and> attitude p = (0, 0, 0, 0)
          \<and> fst (attitude_rate p) = 0 \<and> fst (snd (attitude_rate p)) = 0)"

text \<open>The eight keys of the second \<^verbatim>\<open>KEYDOWN\<close> chain: the directional inputs.\<close>

definition axis_key :: "key \<Rightarrow> bool" where
  "axis_key k =
     (k = K_w \<or> k = K_s \<or> k = K_a \<or> k = K_d \<or> k = K_UP \<or> k = K_DOWN \<or> k = K_LEFT \<or> k = K_RIGHT)"

definition thrust_ok :: "attitude_sender \<Rightarrow> bool" where
  "thrust_ok s = (0 \<le> thrust s \<and> thrust s \<le> 1)"

definition pure_att :: "attitude_sender \<Rightarrow> bool" where
  "pure_att s = list_all (\<lambda>p. mode p = ATTITUDE_CONTROL \<and> mode_pure p) (sent s)"

definition pure_vel :: "velocity_sender \<Rightarrow> bool" where
  "pure_vel s = list_all (\<lambda>p. mode p = VELOCITY_BODY \<and> mode_pure p) (sent s)"

section \<open>Auxiliary facts\<close>

lemmas att_handler_defs =
  enable_control_def toggle_mode_def disable_control_att_def reset_control_att_def send_attitude_def
  adjust_pitch_up_def adjust_pitch_down_def adjust_roll_left_def adjust_roll_right_def
  increase_thrust_def decrease_thrust_def yaw_left_att_def yaw_right_att_def
  reset_roll_def reset_pitch_def reset_thrust_def reset_yaw_def

lemmas vel_handler_defs =
  enable_control_def toggle_mode_def disable_control_vel_def reset_control_vel_def send_velocity_body_def
  move_forward_def move_backward_def move_left_def move_right_def ascend_def descend_def
  yaw_left_vel_def yaw_right_vel_def
  reset_velocity_x_def reset_velocity_y_def reset_velocity_z_def reset_yaw_rate_def

text \<open>
  A property that every button action preserves is preserved by the loop that clicks
  the buttons under the mouse, and likewise for the loop that releases all buttons.
\<close>

lemma click_buttons_inv:
  assumes "\<And>b st. b \<in> set bs \<Longrightarrow> I st \<Longrightarrow> I (action b st)" and "I s"
  shows "I (click_buttons bs mouse_pos s)"
  using assms unfolding click_buttons_def
  by (induction bs arbitrary: s) (simp_all add: click_def)

lemma release_buttons_inv:
  assumes "\<And>b f st. b \<in> set bs \<Longrightarrow> release_action b = Some f \<Longrightarrow> I st \<Longrightarrow> I (f st)" and "I s"
  shows "I (release_buttons bs s)"
  using assms unfolding release_buttons_def
proof (induction bs arbitrary: s)
  case Nil
  then show ?case by simp
next
  case (Cons b bs)
  have step: "I (release b s)"
  proof (cases "release_action b")
    case None
    then show ?thesis using Cons.prems(2) by (simp add: release_def)
  next
    case (Some f)
    then show ?thesis using Cons.prems(1) [of b f s] Cons.prems(2) by (simp add: release_def)
  qed
  have "I (foldl (\<lambda>st b. release b st) (release b s) bs)"
    by (rule Cons.IH) (use Cons.prems(1) step in auto)
  then show ?case by simp
qed

subsection \<open>Thrust stays in range\<close>

lemma thrust_ok_keydown:
  "thrust_ok s \<Longrightarrow> thrust_ok (handle_event_att s (KEYDOWN k))"
  by (simp add: thrust_ok_def keydown_control_att_def keydown_axis_att_def att_handler_defs THRUST_STEP_def Let_def)

lemma thrust_ok_keyup:
  "thrust_ok s \<Longrightarrow> thrust_ok (handle_event_att s (KEYUP k))"
  by (simp add: thrust_ok_def keyup_att_def att_handler_defs)

lemma thrust_ok_click:
  "thrust_ok s \<Longrightarrow> thrust_ok (handle_event_att s (MOUSEBUTTONDOWN mouse_pos))"
  unfolding handle_event_att.simps
  by (rule click_buttons_inv [where I = thrust_ok])
     (auto simp add: buttons_att_def Button_def thrust_ok_def check_enabled_def att_handler_defs THRUST_STEP_def)

lemma thrust_ok_release:
  "thrust_ok s \<Longrightarrow> thrust_ok (handle_event_att s MOUSEBUTTONUP)"
  unfolding handle_event_att.simps
  by (rule release_buttons_inv [where I = thrust_ok])
     (auto simp add: buttons_att_def Button_def thrust_ok_def check_and_reset_def att_handler_defs)

lemma thrust_ok_handle_event:
  "thrust_ok s \<Longrightarrow> thrust_ok (handle_event_att s e)"
proof (cases e)
  case QUIT
  then show ?thesis if "thrust_ok s" using that by (simp add: thrust_ok_def)
next
  case (KEYDOWN k)
  then show ?thesis if "thrust_ok s" using that thrust_ok_keydown by simp
next
  case (KEYUP k)
  then show ?thesis if "thrust_ok s" using that thrust_ok_keyup by simp
next
  case (MOUSEBUTTONDOWN p)
  then show ?thesis if "thrust_ok s" using that thrust_ok_click by simp
next
  case MOUSEBUTTONUP
  then show ?thesis if "thrust_ok s" using that thrust_ok_release by simp
next
  case OTHER_EVENT
  then show ?thesis if "thrust_ok s" using that by simp
qed

lemma thrust_ok_events:
  "thrust_ok s \<Longrightarrow> thrust_ok (foldl handle_event_att s evs)"
  by (induction evs arbitrary: s) (simp_all add: thrust_ok_handle_event)

lemma thrust_ok_main_iteration:
  "thrust_ok s \<Longrightarrow> thrust_ok (main_iteration_att s evs)"
  using thrust_ok_events [of s evs]
  by (simp add: main_iteration_att_def Let_def send_attitude_def thrust_ok_def)

lemma thrust_ok_main:
  "thrust_ok s \<Longrightarrow> thrust_ok (main_att s evss)"
  by (induction evss arbitrary: s) (simp_all add: thrust_ok_main_iteration)

subsection \<open>Every packet sent is pure for its mode\<close>

lemma pure_att_send: "pure_att s \<Longrightarrow> pure_att (send_attitude r p y t s)"
  by (simp add: pure_att_def send_attitude_def mode_pure_def)

lemma pure_vel_send: "pure_vel s \<Longrightarrow> pure_vel (send_velocity_body vx vy vz yr s)"
  by (simp add: pure_vel_def send_velocity_body_def mode_pure_def)

lemma pure_att_handle_event: "pure_att s \<Longrightarrow> pure_att (handle_event_att s e)"
proof (cases e)
  case QUIT
  then show ?thesis if "pure_att s" using that by (simp add: pure_att_def)
next
  case (KEYDOWN k)
  then show ?thesis if "pure_att s" using that
    by (simp add: pure_att_def mode_pure_def keydown_control_att_def keydown_axis_att_def att_handler_defs Let_def)
next
  case (KEYUP k)
  then show ?thesis if "pure_att s" using that
    by (simp add: pure_att_def keyup_att_def att_handler_defs)
next
  case (MOUSEBUTTONDOWN mouse_pos)
  have "pure_att (click_buttons buttons_att mouse_pos s)" if "pure_att s"
    by (rule click_buttons_inv [where I = pure_att])
       (use that in \<open>auto simp add: buttons_att_def Button_def pure_att_def mode_pure_def check_enabled_def att_handler_defs\<close>)
  then show ?thesis if "pure_att s" using that MOUSEBUTTONDOWN by simp
next
  case MOUSEBUTTONUP
  have "pure_att (release_buttons buttons_att s)" if "pure_att s"
    by (rule release_buttons_inv [where I = pure_att])
       (use that in \<open>auto simp add: buttons_att_def Button_def pure_att_def check_and_reset_def att_handler_defs\<close>)
  then show ?thesis if "pure_att s" using that MOUSEBUTTONUP by simp
next
  case OTHER_EVENT
  then show ?thesis if "pure_att s" using that by simp
qed

lemma pure_vel_handle_event: "pure_vel s \<Longrightarrow> pure_vel (handle_event_vel s e)"
proof (cases e)
  case QUIT
  then show ?thesis if "pure_vel s" using that by (simp add: pure_vel_def)
next
  case (KEYDOWN k)
  then show ?thesis if "pure_vel s" using that
    by (simp add: pure_vel_def mode_pure_def keydown_control_vel_def keydown_axis_vel_def vel_handler_defs Let_def)
next
  case (KEYUP k)
  then show ?thesis if "pure_vel s" using that
    by (simp add: pure_vel_def keyup_vel_def vel_handler_defs)
next
  case (MOUSEBUTTONDOWN mouse_pos)
  have "pure_vel (click_buttons buttons_vel mouse_pos s)" if "pure_vel s"
    by (rule click_buttons_inv [where I = pure_vel])
       (use that in \<open>auto simp add: buttons_vel_def Button_def pure_vel_def mode_pure_def check_enabled_def vel_handler_defs\<close>)
  then show ?thesis if "pure_vel s" using that MOUSEBUTTONDOWN by simp
next
  case MOUSEBUTTONUP
  have "pure_vel (release_buttons buttons_vel s)" if "pure_vel s"
    by (rule release_buttons_inv [where I = pure_vel])
       (use that in \<open>auto simp add: buttons_vel_def Button_def pure_vel_def check_and_reset_def vel_handler_defs\<close>)
  then show ?thesis if "pure_vel s" using that MOUSEBUTTONUP by simp
next
  case OTHER_EVENT
  then show ?thesis if "pure_vel s" using that by simp
qed

lemma pure_att_events: "pure_att s \<Longrightarrow> pure_att (foldl handle_event_att s evs)"
  by (induction evs arbitrary: s) (simp_all add: pure_att_handle_event)

lemma pure_vel_events: "pure_vel s \<Longrightarrow> pure_vel (foldl handle_event_vel s evs)"
  by (induction evs arbitrary: s) (simp_all add: pure_vel_handle_event)

lemma pure_att_main: "pure_att s \<Longrightarrow> pure_att (main_att s evss)"
proof (induction evss arbitrary: s)
  case Nil
  then show ?case by simp
next
  case (Cons evs evss)
  have "pure_att (main_iteration_att s evs)"
    using pure_att_events [OF Cons.prems, of evs]
    by (simp add: main_iteration_att_def Let_def pure_att_send)
  then show ?case using Cons by simp
qed

lemma pure_vel_main: "pure_vel s \<Longrightarrow> pure_vel (main_vel s evss)"
proof (induction evss arbitrary: s)
  case Nil
  then show ?case by simp
next
  case (Cons evs evss)
  have "pure_vel (main_iteration_vel s evs)"
    using pure_vel_events [OF Cons.prems, of evs]
    by (simp add: main_iteration_vel_def Let_def pure_vel_send)
  then show ?case using Cons by simp
qed

subsection \<open>Effects of single events\<close>

lemma disable_control_att_effect:
  "disable_control_att a =
     a\<lparr>enabled := False,
       sent := sent a @
         [\<lparr>mode = ATTITUDE_CONTROL, enable_flag = True, yaw_control_flag = True,
           position = (0, 0, 0), velocity = (0, 0, 0), acceleration = (0, 0, 0),
           attitude = (0, 0, 0, 0), attitude_rate = (0, 0, 0)\<rparr>]\<rparr>"
  by (simp add: disable_control_att_def send_attitude_def)

lemma disable_control_vel_effect:
  "disable_control_vel v =
     v\<lparr>enabled := False,
       sent := sent v @
         [\<lparr>mode = VELOCITY_BODY, enable_flag = True, yaw_control_flag = True,
           position = (0, 0, 0), velocity = (0, 0, 0), acceleration = (0, 0, 0),
           attitude = (0, 0, 0, 0), attitude_rate = (0, 0, 0)\<rparr>]\<rparr>"
  by (simp add: disable_control_vel_def send_velocity_body_def)

lemma keydown_c_att: "handle_event_att a (KEYDOWN K_c) = disable_control_att a"
  by (simp add: keydown_control_att_def disable_control_att_def send_attitude_def)

lemma keydown_c_vel: "handle_event_vel v (KEYDOWN K_c) = disable_control_vel v"
  by (simp add: keydown_control_vel_def disable_control_vel_def send_velocity_body_def)

lemma disable_tick_att: "main_iteration_att a [KEYDOWN K_c] = disable_control_att a"
  by (simp add: main_iteration_att_def keydown_control_att_def disable_control_att_def send_attitude_def)

lemma disable_tick_vel: "main_iteration_vel v [KEYDOWN K_c] = disable_control_vel v"
  by (simp add: main_iteration_vel_def keydown_control_vel_def disable_control_vel_def
      send_velocity_body_def)

lemma keydown_q_att:
  "sent (handle_event_att a (KEYDOWN K_q)) = sent a @
     [\<lparr>mode = ATTITUDE_CONTROL, enable_flag = True, yaw_control_flag = True,
       position = (0, 0, 0), velocity = (0, 0, 0), acceleration = (0, 0, 0),
       attitude = (0, 0, 0, 0), attitude_rate = (0, 0, 0)\<rparr>]
   \<and> \<not> running (handle_event_att a (KEYDOWN K_q))"
  by (simp add: keydown_control_att_def keydown_axis_att_def send_attitude_def Let_def)

lemma keydown_q_vel:
  "sent (handle_event_vel v (KEYDOWN K_q)) = sent v @
     [\<lparr>mode = VELOCITY_BODY, enable_flag = True, yaw_control_flag = True,
       position = (0, 0, 0), velocity = (0, 0, 0), acceleration = (0, 0, 0),
       attitude = (0, 0, 0, 0), attitude_rate = (0, 0, 0)\<rparr>]
   \<and> \<not> running (handle_event_vel v (KEYDOWN K_q))"
  by (simp add: keydown_control_vel_def keydown_axis_vel_def send_velocity_body_def Let_def)

lemma instant_press_vel:
  assumes "\<not> INCREMENTAL_MODE v" and "enabled v"
  shows "handle_event_vel v (KEYDOWN K_w) = v\<lparr>velocity_x := DEFAULT_SPEED\<rparr>"
    and "handle_event_vel v (KEYDOWN K_s) = v\<lparr>velocity_x := - DEFAULT_SPEED\<rparr>"
    and "handle_event_vel v (KEYDOWN K_a) = v\<lparr>velocity_y := - DEFAULT_SPEED\<rparr>"
    and "handle_event_vel v (KEYDOWN K_d) = v\<lparr>velocity_y := DEFAULT_SPEED\<rparr>"
    and "handle_event_vel v (KEYDOWN K_UP) = v\<lparr>velocity_z := - DEFAULT_SPEED\<rparr>"
    and "handle_event_vel v (KEYDOWN K_DOWN) = v\<lparr>velocity_z := DEFAULT_SPEED\<rparr>"
    and "handle_event_vel v (KEYDOWN K_LEFT) = v\<lparr>yaw_rate := - YAW_RATE_STEP\<rparr>"
    and "handle_event_vel v (KEYDOWN K_RIGHT) = v\<lparr>yaw_rate := YAW_RATE_STEP\<rparr>"
  using assms
  by (simp_all add: keydown_control_vel_def keydown_axis_vel_def vel_handler_defs Let_def)

lemma instant_release_vel:
  assumes "\<not> INCREMENTAL_MODE v"
  shows "handle_event_vel v (KEYUP K_w) = v\<lparr>velocity_x := 0\<rparr>"
    and "handle_event_vel v (KEYUP K_s) = v\<lparr>velocity_x := 0\<rparr>"
    and "handle_event_vel v (KEYUP K_a) = v\<lparr>velocity_y := 0\<rparr>"
    and "handle_event_vel v (KEYUP K_d) = v\<lparr>velocity_y := 0\<rparr>"
    and "handle_event_vel v (KEYUP K_UP) = v\<lparr>velocity_z := 0\<rparr>"
    and "handle_event_vel v (KEYUP K_DOWN) = v\<lparr>velocity_z := 0\<rparr>"
    and "handle_event_vel v (KEYUP K_LEFT) = v\<lparr>yaw_rate := 0\<rparr>"
    and "handle_event_vel v (KEYUP K_RIGHT) = v\<lparr>yaw_rate := 0\<rparr>"
  using assms
  by (simp_all add: keyup_vel_def vel_handler_defs)

lemma instant_release_att:
  assumes "\<not> INCREMENTAL_MODE a"
  shows "handle_event_att a (KEYUP K_w) = a\<lparr>pitch := 0\<rparr>"
    and "handle_event_att a (KEYUP K_s) = a\<lparr>pitch := 0\<rparr>"
    and "handle_event_att a (KEYUP K_a) = a\<lparr>roll := 0\<rparr>"
    and "handle_event_att a (KEYUP K_d) = a\<lparr>roll := 0\<rparr>"
    and "handle_event_att a (KEYUP K_UP) = a"
    and "handle_event_att a (KEYUP K_DOWN) = a"
    and "handle_event_att a (KEYUP K_LEFT) = a\<lparr>yaw := 0\<rparr>"
    and "handle_event_att a (KEYUP K_RIGHT) = a\<lparr>yaw := 0\<rparr>"
  using assms
  by (simp_all add: keyup_att_def att_handler_defs)

lemma thrust_press_att:
  assumes "enabled a"
  shows "handle_event_att a (KEYDOWN K_UP) = a\<lparr>thrust := min (thrust a + THRUST_STEP) 1\<rparr>"
    and "handle_event_att a (KEYDOWN K_DOWN) = a\<lparr>thrust := max (thrust a - THRUST_STEP) 0\<rparr>"
  using assms
  by (simp_all add: keydown_control_att_def keydown_axis_att_def att_handler_defs Let_def)

lemma incremental_release:
  "INCREMENTAL_MODE a \<Longrightarrow> handle_event_att a (KEYUP k) = a"
  "INCREMENTAL_MODE v \<Longrightarrow> handle_event_vel v (KEYUP k) = v"
  "INCREMENTAL_MODE a \<Longrightarrow> handle_event_att a MOUSEBUTTONUP = a"
  "INCREMENTAL_MODE v \<Longrightarrow> handle_event_vel v MOUSEBUTTONUP = v"
  by (simp_all add: keyup_att_def keyup_vel_def release_buttons_def buttons_att_def buttons_vel_def
      Button_def release_def check_and_reset_def)

lemma incremental_press_att:
  assumes "INCREMENTAL_MODE a" and "enabled a"
  shows "handle_event_att a (KEYDOWN K_w) = a\<lparr>pitch := pitch a - ROLL_PITCH_STEP\<rparr>"
    and "handle_event_att a (KEYDOWN K_s) = a\<lparr>pitch := pitch a - ROLL_PITCH_STEP\<rparr>"
    and "handle_event_att a (KEYDOWN K_a) = a\<lparr>roll := roll a - ROLL_PITCH_STEP\<rparr>"
    and "handle_event_att a (KEYDOWN K_d) = a\<lparr>roll := roll a + ROLL_PITCH_STEP\<rparr>"
    and "handle_event_att a (KEYDOWN K_LEFT) = a\<lparr>yaw := YAW_RATE_STEP\<rparr>"
    and "handle_event_att a (KEYDOWN K_RIGHT) = a\<lparr>yaw := 2 * yaw a + YAW_RATE_STEP\<rparr>"
  using assms
  by (simp_all add: keydown_control_att_def keydown_axis_att_def att_handler_defs Let_def)

lemma incremental_press_vel:
  assumes "INCREMENTAL_MODE v" and "enabled v"
  shows "handle_event_vel v (KEYDOWN K_w) = v\<lparr>velocity_x := velocity_x v + DEFAULT_SPEED\<rparr>"
    and "handle_event_vel v (KEYDOWN K_s) = v\<lparr>velocity_x := velocity_x v - DEFAULT_SPEED\<rparr>"
    and "handle_event_vel v (KEYDOWN K_a) = v\<lparr>velocity_y := velocity_y v - DEFAULT_SPEED\<rparr>"
    and "handle_event_vel v (KEYDOWN K_d) = v\<lparr>velocity_y := velocity_y v + DEFAULT_SPEED\<rparr>"
    and "handle_event_vel v (KEYDOWN K_UP) = v\<lparr>velocity_z := velocity_z v - DEFAULT_SPEED\<rparr>"
    and "handle_event_vel v (KEYDOWN K_DOWN) = v\<lparr>velocity_z := velocity_z v + DEFAULT_SPEED\<rparr>"
    and "handle_event_vel v (KEYDOWN K_LEFT) = v\<lparr>yaw_rate := yaw_rate v - YAW_RATE_STEP\<rparr>"
    and "handle_event_vel v (KEYDOWN K_RIGHT) = v\<lparr>yaw_rate := yaw_rate v + YAW_RATE_STEP\<rparr>"
  using assms
  by (simp_all add: keydown_control_vel_def keydown_axis_vel_def vel_handler_defs Let_def)

lemma three_pitch_up_presses:
  "pitch (foldl handle_event_att attitude_init
      [KEYDOWN K_e, KEYDOWN K_m, KEYDOWN K_w, KEYUP K_w, KEYDOWN K_w, KEYUP K_w, KEYDOWN K_w, KEYUP K_w])
    = 0 - 3 * ROLL_PITCH_STEP"
  by (simp add: attitude_init_def keydown_control_att_def keydown_axis_att_def keyup_att_def
      att_handler_defs ROLL_PITCH_STEP_def)


text \<open>
  \<^verbatim>\<open>Quit\<close> does not clear \<^verbatim>\<open>enabled\<close>: when the sender is enabled, the iteration that
  handles the key sends the zero packet and then, at its end, the current axis values.
\<close>

lemma quit_tick_while_enabled:
  "enabled a \<Longrightarrow>
     sent (main_iteration_att a [KEYDOWN K_q]) = sent a @
       [\<lparr>mode = ATTITUDE_CONTROL, enable_flag = True, yaw_control_flag = True,
         position = (0, 0, 0), velocity = (0, 0, 0), acceleration = (0, 0, 0),
         attitude = (0, 0, 0, 0), attitude_rate = (0, 0, 0)\<rparr>,
        \<lparr>mode = ATTITUDE_CONTROL, enable_flag = True, yaw_control_flag = True,
         position = (0, 0, 0), velocity = (0, 0, 0), acceleration = (0, 0, 0),
         attitude = (roll a, pitch a, yaw a, thrust a), attitude_rate = (0, 0, 0)\<rparr>]"
  by (simp add: main_iteration_att_def keydown_control_att_def keydown_axis_att_def
      send_attitude_def Let_def)

text \<open>
  A mouse click on the Mode button is followed by the release of the mouse button, and
  \<^verbatim>\<open>MOUSEBUTTONUP\<close> releases every button. When the click has switched to the
  instant-reset law, that release resets roll, pitch and yaw like any other release.
\<close>

lemma mode_button_click_then_release:
  "pitch (handle_event_att
      (attitude_init\<lparr>enabled := True, INCREMENTAL_MODE := True, pitch := - 6\<rparr>)
      (MOUSEBUTTONDOWN (100, 380))) = - 6
   \<and> pitch (foldl handle_event_att
      (attitude_init\<lparr>enabled := True, INCREMENTAL_MODE := True, pitch := - 6\<rparr>)
      [MOUSEBUTTONDOWN (100, 380), MOUSEBUTTONUP]) = 0"
  by (simp add: attitude_init_def click_buttons_def release_buttons_def buttons_att_def
      Button_def is_clicked_def click_def release_def toggle_mode_def check_and_reset_def
      reset_pitch_def reset_roll_def reset_yaw_def reset_thrust_def)

subsection \<open>Codec\<close>

lemma decode_encode_num: "decode_num (encode_num w) = w"
proof (rule bit_word_eqI)
  fix n :: nat
  assume n: "n < LENGTH(32)"
  have "n < 8 \<or> (8 \<le> n \<and> n < 16) \<or> (16 \<le> n \<and> n < 24) \<or> (24 \<le> n \<and> n < 32)"
    using n by auto
  then show "bit (decode_num (encode_num w)) n = bit w n"
    unfolding decode_num_def encode_num_def
    by (auto simp add: bit_simps)
qed

lemma length_encode_num: "length (encode_num w) = 4"
  by (simp add: encode_num_def)

lemma mode_of_tag_mode_tag: "mode_of_tag (mode_tag m) = Some m"
  by (cases m) (simp_all add: mode_of_tag_def mode_tag_def)

lemma decode_encode_bool: "decode_bool (encode_bool b) = b"
  by (simp add: decode_bool_def encode_bool_def)

lemma length_encode: "length (encode p) = PACKET_SIZE"
  by (simp add: encode_def encode3_def encode4_def length_encode_num PACKET_SIZE_def
      split: prod.splits)

lemma decode_wrong_length: "length bs \<noteq> PACKET_SIZE \<Longrightarrow> decode bs = Inl MalformedPacket"
  by (simp add: decode_def)

lemma decode_unknown_tag:
  "mode_of_tag (bs ! 0) = None \<Longrightarrow> decode bs = Inl MalformedPacket"
  by (simp add: decode_def)

section \<open>Properties\<close>

subsection \<open>C1: Disable and Quit\<close>

text \<open>
  C1, as stated, asks for a packet whose \<open>enable_flag\<close> is false. Both send functions
  build every packet with \<^verbatim>\<open>enable_flag=True\<close>, so the one packet that Disable emits
  from the initial state carries \<open>enable_flag = True\<close>, in both senders.
\<close>

theorem disable_enable_flag_counterexample:
  "map enable_flag (sent (handle_event_att attitude_init (KEYDOWN K_c))) = [True]
   \<and> map enable_flag (sent (handle_event_vel velocity_init (KEYDOWN K_c))) = [True]"
  by (simp add: attitude_init_def velocity_init_def keydown_control_att_def keydown_control_vel_def
      disable_control_att_def disable_control_vel_def send_attitude_def send_velocity_body_def)

text \<open>
  C1, amended. For every state, processing a Disable event (the key \<^verbatim>\<open>C\<close>, which runs
  \<^verbatim>\<open>disable_control\<close>, the action of the Disable button) sets \<open>enabled\<close> to false and
  emits exactly one packet of the sender's mode whose position, velocity, acceleration,
  attitude (thrust 0 included) and attitude-rate fields are all zero, whatever the
  current axis values, and whose \<open>enable_flag\<close> is true; an iteration whose only event
  is Disable sends nothing more. The handler of the Quit key emits one packet with the
  same contents and clears \<open>running\<close>.
\<close>

theorem disable_emits_one_zero_packet:
  "handle_event_att a (KEYDOWN K_c) =
     a\<lparr>enabled := False,
       sent := sent a @
         [\<lparr>mode = ATTITUDE_CONTROL, enable_flag = True, yaw_control_flag = True,
           position = (0, 0, 0), velocity = (0, 0, 0), acceleration = (0, 0, 0),
           attitude = (0, 0, 0, 0), attitude_rate = (0, 0, 0)\<rparr>]\<rparr>
   \<and> main_iteration_att a [KEYDOWN K_c] = handle_event_att a (KEYDOWN K_c)
   \<and> disable_control_att a = handle_event_att a (KEYDOWN K_c)
   \<and> handle_event_vel v (KEYDOWN K_c) =
     v\<lparr>enabled := False,
       sent := sent v @
         [\<lparr>mode = VELOCITY_BODY, enable_flag = True, yaw_control_flag = True,
           position = (0, 0, 0), velocity = (0, 0, 0), acceleration = (0, 0, 0),
           attitude = (0, 0, 0, 0), attitude_rate = (0, 0, 0)\<rparr>]\<rparr>
   \<and> main_iteration_vel v [KEYDOWN K_c] = handle_event_vel v (KEYDOWN K_c)
   \<and> disable_control_vel v = handle_event_vel v (KEYDOWN K_c)
   \<and> sent (handle_event_att a (KEYDOWN K_q)) = sent a @
         [\<lparr>mode = ATTITUDE_CONTROL, enable_flag = True, yaw_control_flag = True,
           position = (0, 0, 0), velocity = (0, 0, 0), acceleration = (0, 0, 0),
           attitude = (0, 0, 0, 0), attitude_rate = (0, 0, 0)\<rparr>]
   \<and> \<not> running (handle_event_att a (KEYDOWN K_q))
   \<and> sent (handle_event_vel v (KEYDOWN K_q)) = sent v @
         [\<lparr>mode = VELOCITY_BODY, enable_flag = True, yaw_control_flag = True,
           position = (0, 0, 0), velocity = (0, 0, 0), acceleration = (0, 0, 0),
           attitude = (0, 0, 0, 0), attitude_rate = (0, 0, 0)\<rparr>]
   \<and> \<not> running (handle_event_vel v (KEYDOWN K_q))"
  using keydown_q_att [of a] keydown_q_vel [of v]
  by (simp only: keydown_c_att keydown_c_vel disable_tick_att disable_tick_vel
      disable_control_att_effect disable_control_vel_effect) simp

subsection \<open>C2: instant-reset law\<close>

text \<open>
  C2, as stated, fails in the attitude sender. From the initial state (instant-reset
  law), enabling, pressing and releasing increase-thrust leaves thrust at \<open>13/25\<close>, not
  at the neutral \<open>1/2\<close>. And a roll value of 2 carried over from the incremental law
  becomes 4 on the next roll-right press under the instant-reset law: the press adds
  to the running value.
\<close>

theorem instant_reset_counterexample:
  "\<not> INCREMENTAL_MODE (foldl handle_event_att attitude_init [KEYDOWN K_e, KEYDOWN K_UP, KEYUP K_UP])
   \<and> thrust (foldl handle_event_att attitude_init [KEYDOWN K_e, KEYDOWN K_UP, KEYUP K_UP]) = 13 / 25
   \<and> \<not> INCREMENTAL_MODE (foldl handle_event_att attitude_init
         [KEYDOWN K_e, KEYDOWN K_m, KEYDOWN K_d, KEYUP K_d, KEYDOWN K_m, KEYDOWN K_d])
   \<and> roll (foldl handle_event_att attitude_init
         [KEYDOWN K_e, KEYDOWN K_m, KEYDOWN K_d, KEYUP K_d, KEYDOWN K_m, KEYDOWN K_d]) = 4"
  by (simp add: attitude_init_def keydown_control_att_def keydown_axis_att_def keyup_att_def
      att_handler_defs ROLL_PITCH_STEP_def THRUST_STEP_def)

text \<open>
  C2, amended. Under the instant-reset law and while enabled: in the body-velocity
  sender every axis press sets its axis to a fixed offset from neutral
  (\<open>\<plusminus>DEFAULT_SPEED\<close> for the velocity components, \<open>\<plusminus>YAW_RATE_STEP\<close> for the yaw rate),
  whatever the previous value, and the matching release sets that axis to 0; in the
  attitude sender the release of a roll, pitch or yaw input sets that axis to 0, the
  release of a thrust input changes nothing (thrust does not snap back to \<open>1/2\<close>), and a
  thrust press moves thrust by one \<open>THRUST_STEP\<close>, clamped to \<open>[0, 1]\<close>.
\<close>

theorem instant_reset_amended:
  assumes "\<not> INCREMENTAL_MODE v" and "enabled v" and "\<not> INCREMENTAL_MODE a" and "enabled a"
  shows "handle_event_vel v (KEYDOWN K_w) = v\<lparr>velocity_x := DEFAULT_SPEED\<rparr>
       \<and> handle_event_vel v (KEYDOWN K_s) = v\<lparr>velocity_x := - DEFAULT_SPEED\<rparr>
       \<and> handle_event_vel v (KEYDOWN K_a) = v\<lparr>velocity_y := - DEFAULT_SPEED\<rparr>
       \<and> handle_event_vel v (KEYDOWN K_d) = v\<lparr>velocity_y := DEFAULT_SPEED\<rparr>
       \<and> handle_event_vel v (KEYDOWN K_UP) = v\<lparr>velocity_z := - DEFAULT_SPEED\<rparr>
       \<and> handle_event_vel v (KEYDOWN K_DOWN) = v\<lparr>velocity_z := DEFAULT_SPEED\<rparr>
       \<and> handle_event_vel v (KEYDOWN K_LEFT) = v\<lparr>yaw_rate := - YAW_RATE_STEP\<rparr>
       \<and> handle_event_vel v (KEYDOWN K_RIGHT) = v\<lparr>yaw_rate := YAW_RATE_STEP\<rparr>
       \<and> handle_event_vel v (KEYUP K_w) = v\<lparr>velocity_x := 0\<rparr>
       \<and> handle_event_vel v (KEYUP K_s) = v\<lparr>velocity_x := 0\<rparr>
       \<and> handle_event_vel v (KEYUP K_a) = v\<lparr>velocity_y := 0\<rparr>
       \<and> handle_event_vel v (KEYUP K_d) = v\<lparr>velocity_y := 0\<rparr>
       \<and> handle_event_vel v (KEYUP K_UP) = v\<lparr>velocity_z := 0\<rparr>
       \<and> handle_event_vel v (KEYUP K_DOWN) = v\<lparr>velocity_z := 0\<rparr>
       \<and> handle_event_vel v (KEYUP K_LEFT) = v\<lparr>yaw_rate := 0\<rparr>
       \<and> handle_event_vel v (KEYUP K_RIGHT) = v\<lparr>yaw_rate := 0\<rparr>
       \<and> handle_event_att a (KEYUP K_w) = a\<lparr>pitch := 0\<rparr>
       \<and> handle_event_att a (KEYUP K_s) = a\<lparr>pitch := 0\<rparr>
       \<and> handle_event_att a (KEYUP K_a) = a\<lparr>roll := 0\<rparr>
       \<and> handle_event_att a (KEYUP K_d) = a\<lparr>roll := 0\<rparr>
       \<and> handle_event_att a (KEYUP K_LEFT) = a\<lparr>yaw := 0\<rparr>
       \<and> handle_event_att a (KEYUP K_RIGHT) = a\<lparr>yaw := 0\<rparr>
       \<and> handle_event_att a (KEYUP K_UP) = a
       \<and> handle_event_att a (KEYUP K_DOWN) = a
       \<and> handle_event_att a (KEYDOWN K_UP) = a\<lparr>thrust := min (thrust a + THRUST_STEP) 1\<rparr>
       \<and> handle_event_att a (KEYDOWN K_DOWN) = a\<lparr>thrust := max (thrust a - THRUST_STEP) 0\<rparr>"
  by (simp only: instant_press_vel [OF assms(1,2)] instant_release_vel [OF assms(1)]
      instant_release_att [OF assms(3)] thrust_press_att [OF assms(4)] simp_thms)

theorem instant_reset_amended_witness:
  "handle_event_vel (velocity_init\<lparr>enabled := True, velocity_x := 7\<rparr>) (KEYDOWN K_w)
     = velocity_init\<lparr>enabled := True, velocity_x := 1\<rparr>
   \<and> handle_event_vel (velocity_init\<lparr>enabled := True, velocity_x := 7\<rparr>) (KEYUP K_w)
     = velocity_init\<lparr>enabled := True, velocity_x := 0\<rparr>
   \<and> handle_event_att (attitude_init\<lparr>enabled := True, roll := 2, thrust := 3 / 4\<rparr>) (KEYUP K_d)
     = attitude_init\<lparr>enabled := True, roll := 0, thrust := 3 / 4\<rparr>
   \<and> handle_event_att (attitude_init\<lparr>enabled := True, roll := 2, thrust := 3 / 4\<rparr>) (KEYUP K_UP)
     = attitude_init\<lparr>enabled := True, roll := 2, thrust := 3 / 4\<rparr>"
  using instant_reset_amended [of "velocity_init\<lparr>enabled := True, velocity_x := 7\<rparr>"
      "attitude_init\<lparr>enabled := True, roll := 2, thrust := 3 / 4\<rparr>"]
  by (simp add: velocity_init_def attitude_init_def DEFAULT_SPEED_def)

subsection \<open>C3: incremental law\<close>

text \<open>
  C3 says that under the incremental law each yaw press changes yaw by exactly
  \<open>\<plusminus>YAW_RATE_STEP\<close>. In the attitude sender, \<^verbatim>\<open>yaw_right\<close> executes
  \<^verbatim>\<open>yaw += (yaw + YAW_RATE_STEP)\<close> and \<^verbatim>\<open>yaw_left\<close> executes
  \<^verbatim>\<open>yaw -= (yaw - YAW_RATE_STEP)\<close> under that law. From the initial state, after Enable
  and ToggleMode, a first yaw-right press gives yaw 5; a second one gives 15, a change
  of 10; a yaw-left press instead of the second one leaves yaw at 5, a change of 0.
\<close>

theorem incremental_yaw_evaluation:
  "INCREMENTAL_MODE (foldl handle_event_att attitude_init [KEYDOWN K_e, KEYDOWN K_m, KEYDOWN K_RIGHT])
   \<and> enabled (foldl handle_event_att attitude_init [KEYDOWN K_e, KEYDOWN K_m, KEYDOWN K_RIGHT])
   \<and> yaw (foldl handle_event_att attitude_init [KEYDOWN K_e, KEYDOWN K_m, KEYDOWN K_RIGHT]) = 5
   \<and> yaw (foldl handle_event_att attitude_init
        [KEYDOWN K_e, KEYDOWN K_m, KEYDOWN K_RIGHT, KEYDOWN K_RIGHT]) = 15
   \<and> yaw (foldl handle_event_att attitude_init
        [KEYDOWN K_e, KEYDOWN K_m, KEYDOWN K_RIGHT, KEYDOWN K_LEFT]) = 5"
  by (simp add: attitude_init_def keydown_control_att_def keydown_axis_att_def
      att_handler_defs YAW_RATE_STEP_def)

subsection \<open>C4: axis events while disabled\<close>

text \<open>
  C4, as stated, fails for release events: they are guarded by the control law only.
  After Enable, pitch-up (pitch 2) and Disable, the sender is disabled with pitch 2,
  and releasing the pitch-up key sets pitch to 0.
\<close>

theorem release_while_disabled_counterexample:
  "\<not> enabled (foldl handle_event_att attitude_init [KEYDOWN K_e, KEYDOWN K_w, KEYDOWN K_c])
   \<and> pitch (foldl handle_event_att attitude_init [KEYDOWN K_e, KEYDOWN K_w, KEYDOWN K_c]) = 2
   \<and> pitch (handle_event_att
        (foldl handle_event_att attitude_init [KEYDOWN K_e, KEYDOWN K_w, KEYDOWN K_c]) (KEYUP K_w)) = 0"
  by (simp add: attitude_init_def keydown_control_att_def keydown_axis_att_def keyup_att_def
      att_handler_defs ROLL_PITCH_STEP_def)

text \<open>
  C4, amended. While \<open>enabled\<close> is false, every axis-press event (any of the eight
  directional keys, or any action wrapped by \<^verbatim>\<open>check_enabled\<close>) leaves the whole state
  unchanged. Axis-release events are not gated by \<open>enabled\<close>: while disabled, a release
  changes nothing under the incremental law, and under the instant-reset law it sets
  its axis to 0 (pitch, roll, yaw; the velocity components and the yaw rate), the
  thrust releases changing nothing.
\<close>

theorem disabled_axis_events:
  assumes "\<not> enabled a" and "\<not> enabled v" and "axis_key k"
  shows "handle_event_att a (KEYDOWN k) = a
       \<and> handle_event_vel v (KEYDOWN k) = v
       \<and> check_enabled f a = a
       \<and> check_enabled g v = v
       \<and> (INCREMENTAL_MODE a \<longrightarrow> handle_event_att a (KEYUP k) = a)
       \<and> (INCREMENTAL_MODE v \<longrightarrow> handle_event_vel v (KEYUP k) = v)
       \<and> (\<not> INCREMENTAL_MODE a \<longrightarrow>
            handle_event_att a (KEYUP K_w) = a\<lparr>pitch := 0\<rparr>
          \<and> handle_event_att a (KEYUP K_s) = a\<lparr>pitch := 0\<rparr>
          \<and> handle_event_att a (KEYUP K_a) = a\<lparr>roll := 0\<rparr>
          \<and> handle_event_att a (KEYUP K_d) = a\<lparr>roll := 0\<rparr>
          \<and> handle_event_att a (KEYUP K_LEFT) = a\<lparr>yaw := 0\<rparr>
          \<and> handle_event_att a (KEYUP K_RIGHT) = a\<lparr>yaw := 0\<rparr>
          \<and> handle_event_att a (KEYUP K_UP) = a
          \<and> handle_event_att a (KEYUP K_DOWN) = a)
       \<and> (\<not> INCREMENTAL_MODE v \<longrightarrow>
            handle_event_vel v (KEYUP K_w) = v\<lparr>velocity_x := 0\<rparr>
          \<and> handle_event_vel v (KEYUP K_s) = v\<lparr>velocity_x := 0\<rparr>
          \<and> handle_event_vel v (KEYUP K_a) = v\<lparr>velocity_y := 0\<rparr>
          \<and> handle_event_vel v (KEYUP K_d) = v\<lparr>velocity_y := 0\<rparr>
          \<and> handle_event_vel v (KEYUP K_UP) = v\<lparr>velocity_z := 0\<rparr>
          \<and> handle_event_vel v (KEYUP K_DOWN) = v\<lparr>velocity_z := 0\<rparr>
          \<and> handle_event_vel v (KEYUP K_LEFT) = v\<lparr>yaw_rate := 0\<rparr>
          \<and> handle_event_vel v (KEYUP K_RIGHT) = v\<lparr>yaw_rate := 0\<rparr>)"
proof -
  have press: "handle_event_att a (KEYDOWN k) = a" "handle_event_vel v (KEYDOWN k) = v"
    using assms by (auto simp add: axis_key_def keydown_control_att_def keydown_control_vel_def)
  have guard: "check_enabled f a = a" "check_enabled g v = v"
    using assms by (simp_all add: check_enabled_def)
  show ?thesis
    using press guard incremental_release(1) [of a k] incremental_release(2) [of v k]
      instant_release_att [of a] instant_release_vel [of v]
    by simp
qed

theorem disabled_axis_events_witness:
  "handle_event_att (attitude_init\<lparr>pitch := 2\<rparr>) (KEYDOWN K_w) = attitude_init\<lparr>pitch := 2\<rparr>
   \<and> handle_event_vel velocity_init (KEYDOWN K_w) = velocity_init
   \<and> handle_event_att (attitude_init\<lparr>pitch := 2\<rparr>) (KEYUP K_w) = attitude_init\<lparr>pitch := 0\<rparr>"
  using disabled_axis_events [of "attitude_init\<lparr>pitch := 2\<rparr>" velocity_init K_w]
  by (simp add: attitude_init_def velocity_init_def axis_key_def)

subsection \<open>C5: thrust range\<close>

text \<open>
  C5. The thrust of the attitude sender always stays within \<open>[0, 1]\<close>: from the initial
  state (thrust \<open>1/2\<close>), after any number of iterations of the main loop on any events,
  and after any further events of the iteration in progress, \<open>0 \<le> thrust \<le> 1\<close>.
\<close>

theorem thrust_within_bounds:
  "0 \<le> thrust (foldl handle_event_att (main_att attitude_init evss) evs)
   \<and> thrust (foldl handle_event_att (main_att attitude_init evss) evs) \<le> 1"
proof -
  have "thrust_ok attitude_init"
    by (simp add: thrust_ok_def attitude_init_def)
  then have "thrust_ok (foldl handle_event_att (main_att attitude_init evss) evs)"
    by (intro thrust_ok_events thrust_ok_main)
  then show ?thesis by (simp add: thrust_ok_def)
qed

subsection \<open>C6: mode purity\<close>

text \<open>
  C6. Every packet that either sender has sent, after any number of iterations of its
  main loop and any further events, carries that sender's mode and has every field
  outside the mode's subset equal to zero: attitude packets have zero position,
  velocity, acceleration and attitude rate; body-velocity packets have zero position,
  acceleration and attitude, and zero roll-rate and pitch-rate slots.
\<close>

theorem mode_purity:
  "(\<forall>p \<in> set (sent (foldl handle_event_att (main_att attitude_init evss) evs)).
       mode p = ATTITUDE_CONTROL \<and> mode_pure p)
   \<and> (\<forall>p \<in> set (sent (foldl handle_event_vel (main_vel velocity_init evss') evs')).
       mode p = VELOCITY_BODY \<and> mode_pure p)"
proof -
  have "pure_att attitude_init"
    by (simp add: pure_att_def attitude_init_def)
  then have a: "pure_att (foldl handle_event_att (main_att attitude_init evss) evs)"
    by (intro pure_att_events pure_att_main)
  have "pure_vel velocity_init"
    by (simp add: pure_vel_def velocity_init_def)
  then have v: "pure_vel (foldl handle_event_vel (main_vel velocity_init evss') evs')"
    by (intro pure_vel_events pure_vel_main)
  from a v show ?thesis
    by (simp add: pure_att_def pure_vel_def list_all_iff)
qed

theorem mode_purity_witness:
  "\<lparr>mode = ATTITUDE_CONTROL, enable_flag = True, yaw_control_flag = True,
     position = (0, 0, 0), velocity = (0, 0, 0), acceleration = (0, 0, 0),
     attitude = (2, 0, 0, 1 / 2), attitude_rate = (0, 0, 0)\<rparr>
     \<in> set (sent (foldl handle_event_att
           (main_att attitude_init [[KEYDOWN K_e, KEYDOWN K_d], [KEYDOWN K_c]]) []))
   \<and> mode_pure
       \<lparr>mode = ATTITUDE_CONTROL, enable_flag = True, yaw_control_flag = True,
        position = (0, 0, 0), velocity = (0, 0, 0), acceleration = (0, 0, 0),
        attitude = (2, 0, 0, 1 / 2), attitude_rate = (0, 0, 0)\<rparr>
   \<and> \<lparr>mode = VELOCITY_BODY, enable_flag = True, yaw_control_flag = True,
       position = (0, 0, 0), velocity = (0, 0, 0), acceleration = (0, 0, 0),
       attitude = (0, 0, 0, 0), attitude_rate = (0, 0, 5)\<rparr>
     \<in> set (sent (foldl handle_event_vel
           (main_vel velocity_init [[KEYDOWN K_e, KEYDOWN K_RIGHT]]) []))
   \<and> mode_pure
       \<lparr>mode = VELOCITY_BODY, enable_flag = True, yaw_control_flag = True,
        position = (0, 0, 0), velocity = (0, 0, 0), acceleration = (0, 0, 0),
        attitude = (0, 0, 0, 0), attitude_rate = (0, 0, 5)\<rparr>"
proof -
  have a: "sent (foldl handle_event_att
      (main_att attitude_init [[KEYDOWN K_e, KEYDOWN K_d], [KEYDOWN K_c]]) []) =
     [\<lparr>mode = ATTITUDE_CONTROL, enable_flag = True, yaw_control_flag = True,
       position = (0, 0, 0), velocity = (0, 0, 0), acceleration = (0, 0, 0),
       attitude = (2, 0, 0, 1 / 2), attitude_rate = (0, 0, 0)\<rparr>,
      \<lparr>mode = ATTITUDE_CONTROL, enable_flag = True, yaw_control_flag = True,
       position = (0, 0, 0), velocity = (0, 0, 0), acceleration = (0, 0, 0),
       attitude = (0, 0, 0, 0), attitude_rate = (0, 0, 0)\<rparr>]"
    by (simp add: attitude_init_def main_iteration_att_def keydown_control_att_def
        keydown_axis_att_def att_handler_defs ROLL_PITCH_STEP_def)
  have v: "sent (foldl handle_event_vel
      (main_vel velocity_init [[KEYDOWN K_e, KEYDOWN K_RIGHT]]) []) =
     [\<lparr>mode = VELOCITY_BODY, enable_flag = True, yaw_control_flag = True,
       position = (0, 0, 0), velocity = (0, 0, 0), acceleration = (0, 0, 0),
       attitude = (0, 0, 0, 0), attitude_rate = (0, 0, 5)\<rparr>]"
    by (simp add: velocity_init_def main_iteration_vel_def keydown_control_vel_def
        keydown_axis_vel_def vel_handler_defs YAW_RATE_STEP_def)
  show ?thesis
    using mode_purity [of "[[KEYDOWN K_e, KEYDOWN K_d], [KEYDOWN K_c]]" "[]"
        "[[KEYDOWN K_e, KEYDOWN K_RIGHT]]" "[]"]
    unfolding a v by simp
qed

subsection \<open>C7: codec round trip\<close>

text \<open>
  C7. For every Command Packet \<open>p\<close> (its numbers in the fixed-width wire
  representation), \<open>encode p\<close> is a buffer of the constant length \<open>PACKET_SIZE\<close>, and
  decoding it returns \<open>p\<close> itself, not a format error.
\<close>

theorem decode_encode:
  "length (encode p) = PACKET_SIZE \<and> decode (encode p) = Inr p"
proof -
  obtain p1 p2 p3 where P: "position p = (p1, p2, p3)"
    by (cases "position p") auto
  obtain v1 v2 v3 where V: "velocity p = (v1, v2, v3)"
    by (cases "velocity p") auto
  obtain a1 a2 a3 where A: "acceleration p = (a1, a2, a3)"
    by (cases "acceleration p") auto
  obtain t1 t2 t3 t4 where T: "attitude p = (t1, t2, t3, t4)"
    by (cases "attitude p") auto
  obtain r1 r2 r3 where R: "attitude_rate p = (r1, r2, r3)"
    by (cases "attitude_rate p") auto
  have E: "encode p =
      [mode_tag (mode p), encode_bool (enable_flag p), encode_bool (yaw_control_flag p)]
      @ encode_num p1 @ encode_num p2 @ encode_num p3
      @ encode_num v1 @ encode_num v2 @ encode_num v3
      @ encode_num a1 @ encode_num a2 @ encode_num a3
      @ encode_num t1 @ encode_num t2 @ encode_num t3 @ encode_num t4
      @ encode_num r1 @ encode_num r2 @ encode_num r3"
    by (simp add: encode_def encode3_def encode4_def P V A T R)
  have "decode (encode p) =
      Inr \<lparr>mode = mode p, enable_flag = enable_flag p, yaw_control_flag = yaw_control_flag p,
           position = position p, velocity = velocity p, acceleration = acceleration p,
           attitude = attitude p, attitude_rate = attitude_rate p\<rparr>"
    unfolding decode_def
    by (simp add: length_encode)
       (simp add: E P V A T R mode_of_tag_mode_tag decode_encode_bool num_at_def
          length_encode_num decode_encode_num)
  then show ?thesis
    by (simp add: length_encode)
qed

subsection \<open>C8: ToggleMode\<close>

text \<open>
  C8. Processing a ToggleMode event (the key \<^verbatim>\<open>M\<close>, or a mouse click inside the Mode
  button) flips \<open>INCREMENTAL_MODE\<close> and changes nothing else in either sender: every
  axis value and \<open>enabled\<close> are as before, so an accumulated value persists.
\<close>

theorem toggle_mode_frame:
  "handle_event_att a (KEYDOWN K_m) = a\<lparr>INCREMENTAL_MODE := \<not> INCREMENTAL_MODE a\<rparr>
   \<and> handle_event_vel v (KEYDOWN K_m) = v\<lparr>INCREMENTAL_MODE := \<not> INCREMENTAL_MODE v\<rparr>
   \<and> (50 \<le> x \<and> x \<le> 150 \<and> 360 \<le> y \<and> y \<le> 410 \<longrightarrow>
        handle_event_att a (MOUSEBUTTONDOWN (x, y)) = a\<lparr>INCREMENTAL_MODE := \<not> INCREMENTAL_MODE a\<rparr>
      \<and> handle_event_vel v (MOUSEBUTTONDOWN (x, y)) = v\<lparr>INCREMENTAL_MODE := \<not> INCREMENTAL_MODE v\<rparr>)"
  by (simp add: keydown_control_att_def keydown_axis_att_def keydown_control_vel_def
      keydown_axis_vel_def toggle_mode_def click_buttons_def buttons_att_def buttons_vel_def
      Button_def is_clicked_def click_def Let_def)

theorem toggle_mode_frame_witness:
  "handle_event_att (attitude_init\<lparr>enabled := True, INCREMENTAL_MODE := True, pitch := - 6\<rparr>)
       (MOUSEBUTTONDOWN (100, 380))
     = attitude_init\<lparr>enabled := True, INCREMENTAL_MODE := False, pitch := - 6\<rparr>
   \<and> handle_event_vel (velocity_init\<lparr>enabled := True, INCREMENTAL_MODE := True, yaw_rate := 10\<rparr>)
       (MOUSEBUTTONDOWN (100, 380))
     = velocity_init\<lparr>enabled := True, INCREMENTAL_MODE := False, yaw_rate := 10\<rparr>"
  using toggle_mode_frame [of "attitude_init\<lparr>enabled := True, INCREMENTAL_MODE := True, pitch := - 6\<rparr>"
      "velocity_init\<lparr>enabled := True, INCREMENTAL_MODE := True, yaw_rate := 10\<rparr>" 100 380]
  by (simp add: attitude_init_def velocity_init_def)

subsection \<open>C9: opposing inputs of the attitude sender\<close>

text \<open>
  C9. In the attitude sender (while enabled), under the instant-reset law both the
  roll-left and the roll-right press add \<open>ROLL_PITCH_STEP\<close> to roll, and under the
  incremental law both the pitch-up and the pitch-down press subtract
  \<open>ROLL_PITCH_STEP\<close> from pitch: for each pair there is a law under which the two
  opposing inputs change the axis in the same direction.
\<close>

theorem opposing_inputs_same_direction:
  assumes "enabled s" and "\<not> INCREMENTAL_MODE s" and "enabled t" and "INCREMENTAL_MODE t"
  shows "handle_event_att s (KEYDOWN K_a) = s\<lparr>roll := roll s + ROLL_PITCH_STEP\<rparr>
       \<and> handle_event_att s (KEYDOWN K_d) = s\<lparr>roll := roll s + ROLL_PITCH_STEP\<rparr>
       \<and> handle_event_att t (KEYDOWN K_w) = t\<lparr>pitch := pitch t - ROLL_PITCH_STEP\<rparr>
       \<and> handle_event_att t (KEYDOWN K_s) = t\<lparr>pitch := pitch t - ROLL_PITCH_STEP\<rparr>"
  using assms
  by (simp add: keydown_control_att_def keydown_axis_att_def adjust_roll_left_def
      adjust_roll_right_def adjust_pitch_up_def adjust_pitch_down_def Let_def)

theorem opposing_inputs_same_direction_witness:
  "roll (handle_event_att (attitude_init\<lparr>enabled := True\<rparr>) (KEYDOWN K_a)) = 2
   \<and> roll (handle_event_att (attitude_init\<lparr>enabled := True\<rparr>) (KEYDOWN K_d)) = 2
   \<and> pitch (handle_event_att (attitude_init\<lparr>enabled := True, INCREMENTAL_MODE := True\<rparr>) (KEYDOWN K_w)) = - 2
   \<and> pitch (handle_event_att (attitude_init\<lparr>enabled := True, INCREMENTAL_MODE := True\<rparr>) (KEYDOWN K_s)) = - 2"
  using opposing_inputs_same_direction [of "attitude_init\<lparr>enabled := True\<rparr>"
      "attitude_init\<lparr>enabled := True, INCREMENTAL_MODE := True\<rparr>"]
  by (simp add: attitude_init_def ROLL_PITCH_STEP_def)

subsection \<open>C10: releasing a thrust input\<close>

text \<open>
  C10. In the attitude sender, releasing a thrust input never changes thrust, under
  either control law: the key-up of the Up or Down arrow leaves the whole state as it
  is, the release action of the two thrust buttons (\<^verbatim>\<open>check_and_reset(reset_thrust)\<close>)
  is the identity, and a mouse-button release, which releases every button, leaves
  thrust as it is.
\<close>

theorem thrust_release_noop:
  "handle_event_att s (KEYUP K_UP) = s
   \<and> handle_event_att s (KEYUP K_DOWN) = s
   \<and> check_and_reset reset_thrust s = s
   \<and> thrust (handle_event_att s MOUSEBUTTONUP) = thrust s"
  by (simp add: keyup_att_def reset_thrust_def check_and_reset_def release_buttons_def
      buttons_att_def Button_def release_def reset_pitch_def reset_roll_def reset_yaw_def)

end
